theory Spec2Isabelle
  imports Complex_Main
begin

section \<open>Host types read by the algorithm\<close>

text \<open>
  The algorithm is one Python class, \<^verbatim>\<open>QuiverQuantCongresssUniverseAlgorithm\<close>, with
  three methods that the trading engine calls: \<^verbatim>\<open>Initialize\<close>, \<^verbatim>\<open>UniverseSelection\<close>
  and \<^verbatim>\<open>OnSecuritiesChanged\<close>. The types it reads come from the engine
  (\<^verbatim>\<open>from AlgorithmImports import *\<close>) and are not declared in the file itself.
\<close>

text \<open>
  Modelled from the spec: the engine's enumeration \<^verbatim>\<open>OrderDirection\<close>, which the source
  only names through \<^verbatim>\<open>OrderDirection.Buy\<close>; the spec gives the transaction direction
  as "enumerated: buy/sell".
\<close>

datatype OrderDirection = Buy | Sell

text \<open>
  Modelled from the spec: the engine's enumeration \<^verbatim>\<open>Resolution\<close>, "the time granularity
  (e.g., daily) at which universe data is delivered". The source uses \<^verbatim>\<open>Resolution.Daily\<close>
  only.
\<close>

datatype Resolution = Tick | Second | Minute | Hour | Daily

text \<open>
  Modelled from the spec: a universe datum is "a record supplied by the host per reporting
  entity, with fields: identifying symbol, representative name (string), transaction amount
  (numeric), transaction direction". The symbol type belongs to the engine and is a type
  parameter; the amount is an exact number.
\<close>

record 'sym UniverseDatum =
  Symbol :: 'sym
  Representative :: string
  Amount :: rat
  Transaction :: OrderDirection

text \<open>
  Modelled from the spec: the change set is a "host-owned record describing securities
  added/removed from the active universe since the last cycle".
\<close>

record 'sym SecurityChanges =
  AddedSecurities :: "'sym list"
  RemovedSecurities :: "'sym list"

text \<open>
  The f-string of \<^verbatim>\<open>UniverseSelection\<close> renders a symbol, an amount and a direction with
  the text conversions of the engine's objects. They are parameters of the model.
\<close>

record 'sym host_format =
  str_Symbol :: "'sym \<Rightarrow> string"
  str_Amount :: "rat \<Rightarrow> string"
  str_Transaction :: "OrderDirection \<Rightarrow> string"

section \<open>The selection callback\<close>

text \<open>
  \<^verbatim>\<open>f"{datum.Symbol},{datum.Representative},{datum.Amount},{datum.Transaction}"\<close>
\<close>

definition log_line :: "'sym host_format \<Rightarrow> 'sym UniverseDatum \<Rightarrow> string" where
  "log_line F datum =
     str_Symbol F (Symbol datum) @ '','' @ Representative datum @ '','' @
     str_Amount F (Amount datum) @ '','' @ str_Transaction F (Transaction datum)"

text \<open>
  \<^verbatim>\<open>for datum in data: self.Log(...)\<close>. The method \<^verbatim>\<open>self.Log\<close> is the engine's; it is
  the parameter \<open>sink\<close>, a transformer of the engine's state \<open>'h\<close>, so that any sink
  (the engine's, a capturing one, a counter) can be put in its place.
\<close>

fun log_loop :: "(string \<Rightarrow> 'h \<Rightarrow> 'h) \<Rightarrow> 'sym host_format \<Rightarrow> 'sym UniverseDatum list \<Rightarrow> 'h \<Rightarrow> 'h" where
  "log_loop sink F [] self = self"
| "log_loop sink F (datum # rest) self = log_loop sink F rest (sink (log_line F datum) self)"

text \<open>
  \<^verbatim>\<open>[d.Symbol for d in data if d.Amount > 200000 and d.Transaction == OrderDirection.Buy]\<close>:
  the comprehension walks \<open>data\<close> from the front and appends the symbol of each datum
  that passes the test.
\<close>

fun selection_criteria :: "'sym UniverseDatum list \<Rightarrow> 'sym list" where
  "selection_criteria [] = []"
| "selection_criteria (d # rest) =
     (if Amount d > 200000 \<and> Transaction d = Buy
      then Symbol d # selection_criteria rest
      else selection_criteria rest)"

text \<open>
  The method logs every datum first and then returns the comprehension; the model returns
  the selection together with the engine state after the logging.
\<close>

definition UniverseSelection ::
  "(string \<Rightarrow> 'h \<Rightarrow> 'h) \<Rightarrow> 'sym host_format \<Rightarrow> 'sym UniverseDatum list \<Rightarrow> 'h \<Rightarrow> 'sym list \<times> 'h" where
  "UniverseSelection sink F data self =
     (let self' = log_loop sink F data self
      in (selection_criteria data, self'))"

section \<open>The change notification\<close>

text \<open>
  \<^verbatim>\<open>self.Log(changes.ToString())\<close>. The conversion \<^verbatim>\<open>ToString\<close> is the engine's and is a
  parameter. The method returns nothing, so the model returns the new engine state only.
\<close>

definition OnSecuritiesChanged ::
  "(string \<Rightarrow> 'h \<Rightarrow> 'h) \<Rightarrow> ('sym SecurityChanges \<Rightarrow> string) \<Rightarrow> 'sym SecurityChanges \<Rightarrow> 'h \<Rightarrow> 'h" where
  "OnSecuritiesChanged sink ToString changes self = sink (ToString changes) self"

section \<open>The engine state and the initialization\<close>

record date =
  year :: int
  month :: int
  day :: int

text \<open>
  What \<^verbatim>\<open>AddUniverse\<close> receives: the data source type, the name, the resolution and the
  selection callback. The callback is a bound method of the algorithm; it is recorded by
  name.
\<close>

datatype selector = Method_UniverseSelection

record universe =
  universe_type :: string
  universe_name :: string
  universe_resolution :: Resolution
  universe_selector :: selector

text \<open>
  Modelled from the spec: the "host-managed configuration state" that the initialization
  mutates (universe resolution, backtest start and end date, starting cash, registered
  universes), with the lines the logging sink has received.
\<close>

record QCAlgorithm =
  UniverseSettings_Resolution :: Resolution
  StartDate :: date
  EndDate :: date
  Cash :: rat
  Universes :: "universe list"
  LogLines :: "string list"

text \<open>
  Modelled from the spec: the engine's configuration setters, universe registration and
  logging sink, each as the assignment the spec describes.
\<close>

definition SetStartDate :: "int \<Rightarrow> int \<Rightarrow> int \<Rightarrow> QCAlgorithm \<Rightarrow> QCAlgorithm" where
  "SetStartDate y m d self = self\<lparr>StartDate := \<lparr>year = y, month = m, day = d\<rparr>\<rparr>"

definition SetEndDate :: "int \<Rightarrow> int \<Rightarrow> int \<Rightarrow> QCAlgorithm \<Rightarrow> QCAlgorithm" where
  "SetEndDate y m d self = self\<lparr>EndDate := \<lparr>year = y, month = m, day = d\<rparr>\<rparr>"

definition SetCash :: "rat \<Rightarrow> QCAlgorithm \<Rightarrow> QCAlgorithm" where
  "SetCash c self = self\<lparr>Cash := c\<rparr>"

definition AddUniverse :: "string \<Rightarrow> string \<Rightarrow> Resolution \<Rightarrow> selector \<Rightarrow> QCAlgorithm \<Rightarrow> QCAlgorithm" where
  "AddUniverse T name res sel self =
     self\<lparr>Universes := Universes self @
       [\<lparr>universe_type = T, universe_name = name, universe_resolution = res,
         universe_selector = sel\<rparr>]\<rparr>"

definition Log :: "string \<Rightarrow> QCAlgorithm \<Rightarrow> QCAlgorithm" where
  "Log msg self = self\<lparr>LogLines := LogLines self @ [msg]\<rparr>"

text \<open>The statements of \<^verbatim>\<open>Initialize\<close>, in the order of the source.\<close>

definition Initialize :: "QCAlgorithm \<Rightarrow> QCAlgorithm" where
  "Initialize self =
     (let self1 = self\<lparr>UniverseSettings_Resolution := Daily\<rparr>;
          self2 = SetStartDate 2022 2 14 self1;
          self3 = SetEndDate 2022 2 18 self2;
          self4 = SetCash 100000 self3
      in AddUniverse ''QuiverQuantCongressUniverse'' ''QuiverQuantCongresssUniverse'' Daily
           Method_UniverseSelection self4)"

section \<open>The engine driving the callbacks\<close>

text \<open>
  The engine calls the two callbacks in an order of its own choosing. A run is a list of
  such calls; each call yields what the callback returned (a selection, or nothing).
\<close>

datatype 'sym invocation =
  Call_UniverseSelection "'sym UniverseDatum list"
| Call_OnSecuritiesChanged "'sym SecurityChanges"

fun invoke ::
  "(string \<Rightarrow> 'h \<Rightarrow> 'h) \<Rightarrow> 'sym host_format \<Rightarrow> ('sym SecurityChanges \<Rightarrow> string) \<Rightarrow>
   'sym invocation \<Rightarrow> 'h \<Rightarrow> 'sym list option \<times> 'h" where
  "invoke sink F ToString (Call_UniverseSelection data) self =
     (case UniverseSelection sink F data self of (sel, self') \<Rightarrow> (Some sel, self'))"
| "invoke sink F ToString (Call_OnSecuritiesChanged changes) self =
     (None, OnSecuritiesChanged sink ToString changes self)"

fun run ::
  "(string \<Rightarrow> 'h \<Rightarrow> 'h) \<Rightarrow> 'sym host_format \<Rightarrow> ('sym SecurityChanges \<Rightarrow> string) \<Rightarrow>
   'sym invocation list \<Rightarrow> 'h \<Rightarrow> 'sym list option list \<times> 'h" where
  "run sink F ToString [] self = ([], self)"
| "run sink F ToString (c # cs) self =
     (case invoke sink F ToString c self of
        (r, self') \<Rightarrow> (case run sink F ToString cs self' of (rs, self'') \<Rightarrow> (r # rs, self'')))"

section \<open>Concrete values for the examples\<close>

definition plain_format :: "string host_format" where
  "plain_format =
     \<lparr>str_Symbol = (\<lambda>s. s),
      str_Amount = (\<lambda>a. if a = 250000 then ''250000'' else if a = 150000 then ''150000''
                         else if a = 300000 then ''300000'' else ''?''),
      str_Transaction = (\<lambda>t. case t of Buy \<Rightarrow> ''Buy'' | Sell \<Rightarrow> ''Sell'')\<rparr>"

definition capture :: "string \<Rightarrow> string list \<Rightarrow> string list" where
  "capture msg lines = lines @ [msg]"

definition datum_A :: "string UniverseDatum" where
  "datum_A = \<lparr>Symbol = ''SYM_A'', Representative = ''Rep1'', Amount = 250000, Transaction = Buy\<rparr>"

definition datum_B :: "string UniverseDatum" where
  "datum_B = \<lparr>Symbol = ''SYM_B'', Representative = ''Rep2'', Amount = 150000, Transaction = Buy\<rparr>"

definition datum_C :: "string UniverseDatum" where
  "datum_C = \<lparr>Symbol = ''SYM_C'', Representative = ''Rep3'', Amount = 300000, Transaction = Sell\<rparr>"

definition spec_example :: "string UniverseDatum list" where
  "spec_example = [datum_A, datum_B, datum_C]"

section \<open>Shared lemmas\<close>

lemmas example_defs = spec_example_def datum_A_def datum_B_def datum_C_def

lemma selection_criteria_filter:
  "selection_criteria data =
     map Symbol (filter (\<lambda>d. 200000 < Amount d \<and> Transaction d = Buy) data)"
  by (induction data) simp_all

lemma selection_criteria_append:
  "selection_criteria (xs @ ys) = selection_criteria xs @ selection_criteria ys"
  by (simp add: selection_criteria_filter)

lemma log_loop_foldl:
  "log_loop sink F data self = foldl (\<lambda>s m. sink m s) self (map (log_line F) data)"
  by (induction data arbitrary: self) simp_all

lemma fst_UniverseSelection:
  "fst (UniverseSelection sink F data self) = selection_criteria data"
  by (simp add: UniverseSelection_def)

lemma snd_UniverseSelection:
  "snd (UniverseSelection sink F data self) = log_loop sink F data self"
  by (simp add: UniverseSelection_def)

lemma foldl_Log:
  "foldl (\<lambda>s m. Log m s) h ms = h\<lparr>LogLines := LogLines h @ ms\<rparr>"
  by (induction ms arbitrary: h) (simp_all add: Log_def)

lemma foldl_count:
  "foldl (\<lambda>(s::nat) (m::string). Suc s) k ms = k + length ms"
  by (induction ms arbitrary: k) simp_all

lemma distinct_count_list_le1:
  "distinct xs \<longleftrightarrow> (\<forall>x. count_list xs x \<le> 1)"
proof (induction xs)
  case Nil
  show ?case by simp
next
  case (Cons a xs)
  show ?case
  proof
    assume d: "distinct (a # xs)"
    then have "a \<notin> set xs" and "\<forall>x. count_list xs x \<le> 1"
      using Cons.IH by simp_all
    then show "\<forall>x. count_list (a # xs) x \<le> 1"
      by (simp add: count_list_0_iff)
  next
    assume c: "\<forall>x. count_list (a # xs) x \<le> 1"
    then have "count_list (a # xs) a \<le> 1" by blast
    then have "count_list xs a = 0" by simp
    then have na: "a \<notin> set xs" by (simp add: count_list_0_iff)
    have "\<forall>x. count_list xs x \<le> 1"
    proof
      fix x
      from c have "count_list (a # xs) x \<le> 1" by blast
      then show "count_list xs x \<le> 1" by (simp split: if_splits)
    qed
    with na Cons.IH show "distinct (a # xs)" by simp
  qed
qed

lemma count_list_selection_criteria:
  "count_list (selection_criteria data) s =
     length (filter (\<lambda>d. 200000 < Amount d \<and> Transaction d = Buy \<and> Symbol d = s) data)"
  by (induction data) simp_all

lemma selection_criteria_projection:
  "map (\<lambda>d. (Symbol d, Amount d, Transaction d)) xs =
   map (\<lambda>d. (Symbol d, Amount d, Transaction d)) ys \<Longrightarrow>
   selection_criteria xs = selection_criteria ys"
proof (induction xs arbitrary: ys)
  case Nil
  then show ?case by simp
next
  case (Cons x xs)
  then obtain y ys' where "ys = y # ys'" by (cases ys) auto
  with Cons show ?case by auto
qed

lemma fst_run:
  "fst (run sink F ToString cs self) =
     map (\<lambda>c. case c of Call_UniverseSelection data \<Rightarrow> Some (selection_criteria data)
                       | Call_OnSecuritiesChanged changes \<Rightarrow> None) cs"
proof (induction cs arbitrary: self)
  case Nil
  show ?case by simp
next
  case (Cons c cs)
  obtain r s' where i: "invoke sink F ToString c self = (r, s')"
    by (cases "invoke sink F ToString c self")
  obtain rs s'' where t: "run sink F ToString cs s' = (rs, s'')"
    by (cases "run sink F ToString cs s'")
  from Cons.IH [of s'] t have rs: "rs =
     map (\<lambda>c. case c of Call_UniverseSelection data \<Rightarrow> Some (selection_criteria data)
                       | Call_OnSecuritiesChanged changes \<Rightarrow> None) cs"
    by simp
  from i have r: "r = (case c of Call_UniverseSelection data \<Rightarrow> Some (selection_criteria data)
                       | Call_OnSecuritiesChanged changes \<Rightarrow> None)"
    by (cases c) (auto simp add: UniverseSelection_def)
  from i t rs r show ?case
    by simp
qed

text \<open>
  The spec's example, run with the capturing sink: the selection, and the three lines the
  sink has received.
\<close>

lemma UniverseSelection_example_run:
  "UniverseSelection capture plain_format spec_example [] =
     ([''SYM_A''],
      [''SYM_A,Rep1,250000,Buy'', ''SYM_B,Rep2,150000,Buy'', ''SYM_C,Rep3,300000,Sell''])"
  by (simp add: UniverseSelection_def example_defs log_line_def plain_format_def capture_def)

section \<open>The selection is the filter of the input\<close>

text \<open>
  C1. For every input sequence, the selection that \<^verbatim>\<open>UniverseSelection\<close> returns is exactly
  the symbols of the data whose amount is strictly greater than 200000 and whose direction
  is Buy, one per such datum; a datum whose amount is at most 200000 or whose direction is
  not Buy contributes nothing: taking it out of the input leaves the selection as it was.
\<close>

theorem UniverseSelection_exact:
  "fst (UniverseSelection sink F data self) =
     map Symbol (filter (\<lambda>d. 200000 < Amount d \<and> Transaction d = Buy) data)
   \<and> (Amount d \<le> 200000 \<or> Transaction d \<noteq> Buy \<longrightarrow>
        fst (UniverseSelection sink F (xs @ d # ys) self) =
        fst (UniverseSelection sink F (xs @ ys) self))"
proof (intro conjI impI)
  show "fst (UniverseSelection sink F data self) =
     map Symbol (filter (\<lambda>d. 200000 < Amount d \<and> Transaction d = Buy) data)"
    by (simp add: fst_UniverseSelection selection_criteria_filter)
next
  assume "Amount d \<le> 200000 \<or> Transaction d \<noteq> Buy"
  then have "selection_criteria (d # ys) = selection_criteria ys"
    by auto
  then show "fst (UniverseSelection sink F (xs @ d # ys) self) =
        fst (UniverseSelection sink F (xs @ ys) self)"
    by (simp add: fst_UniverseSelection selection_criteria_append)
qed

theorem UniverseSelection_exact_witness:
  "Amount datum_B \<le> 200000
   \<and> fst (UniverseSelection capture plain_format spec_example []) = [''SYM_A'']
   \<and> fst (UniverseSelection capture plain_format ([datum_A] @ datum_B # [datum_C]) []) =
     fst (UniverseSelection capture plain_format ([datum_A] @ [datum_C]) [])"
  using UniverseSelection_exact [of capture plain_format spec_example "[]"
      datum_B "[datum_A]" "[datum_C]"]
  by (simp add: example_defs UniverseSelection_def)

section \<open>The example of the spec and the empty input\<close>

text \<open>
  C4. On the input [(SYM_A, "Rep1", 250000, buy), (SYM_B, "Rep2", 150000, buy),
  (SYM_C, "Rep3", 300000, sell)] the selection is the one-element list [SYM_A], whatever
  the sink, the text conversions and the engine state are.
\<close>

theorem UniverseSelection_spec_example:
  "fst (UniverseSelection sink F spec_example self) = [''SYM_A'']"
  by (simp add: UniverseSelection_def example_defs)

text \<open>
  C5. On the empty input \<^verbatim>\<open>UniverseSelection\<close> returns the empty selection. The model has no
  error result, as the source has no raise, and on the empty input no call to the engine is
  made at all: the sink is not invoked and the engine state is returned as it was, for
  every sink and every text conversion.
\<close>

theorem UniverseSelection_empty:
  "UniverseSelection sink F [] self = ([], self)"
  by (simp add: UniverseSelection_def)

section \<open>Duplicates and order\<close>

text \<open>
  C2, as the claim states it, fails: the method returns the list that the comprehension
  builds and removes no duplicates. Two data with the symbol SYM_A that both pass the test
  give the selection [SYM_A, SYM_A].
\<close>

theorem UniverseSelection_duplicates:
  "\<not> distinct (fst (UniverseSelection capture plain_format
       [datum_A, datum_A\<lparr>Representative := ''Rep2'', Amount := 300000\<rparr>] []))"
  by (simp add: UniverseSelection_def example_defs)

text \<open>
  C2, amended. The selection is a list with one entry per datum that passes the test: a
  symbol occurs in it as many times as there are data in the input that carry it, have an
  amount above 200000 and the direction Buy. So the selection is free of duplicates exactly
  when no symbol is carried by two such data.
\<close>

theorem UniverseSelection_multiplicity:
  "count_list (fst (UniverseSelection sink F data self)) s =
     length (filter (\<lambda>d. 200000 < Amount d \<and> Transaction d = Buy \<and> Symbol d = s) data)
   \<and> (distinct (fst (UniverseSelection sink F data self)) \<longleftrightarrow>
       (\<forall>s. length (filter (\<lambda>d. 200000 < Amount d \<and> Transaction d = Buy \<and> Symbol d = s) data) \<le> 1))"
  by (simp add: fst_UniverseSelection distinct_count_list_le1 count_list_selection_criteria)

theorem UniverseSelection_multiplicity_witness:
  "count_list (fst (UniverseSelection capture plain_format
       [datum_A, datum_A\<lparr>Representative := ''Rep2'', Amount := 300000\<rparr>] [])) ''SYM_A'' = 2
   \<and> length (filter (\<lambda>d. 200000 < Amount d \<and> Transaction d = Buy \<and> Symbol d = ''SYM_A'')
       [datum_A, datum_A\<lparr>Representative := ''Rep2'', Amount := 300000\<rparr>]) = 2"
  using UniverseSelection_multiplicity [of capture plain_format
      "[datum_A, datum_A\<lparr>Representative := ''Rep2'', Amount := 300000\<rparr>]" "[]" "''SYM_A''"]
  by (simp add: example_defs)

text \<open>
  C3. The selection keeps the order of the input: there is a strictly increasing list of
  positions of the input, holding exactly the positions of the data that pass the test,
  such that the selection is the symbols at these positions, in this order.
\<close>

theorem UniverseSelection_order:
  "\<exists>is. sorted_wrt (<) is
      \<and> set is = {i. i < length data \<and> 200000 < Amount (data ! i) \<and> Transaction (data ! i) = Buy}
      \<and> fst (UniverseSelection sink F data self) = map (\<lambda>i. Symbol (data ! i)) is"
proof -
  let ?Q = "\<lambda>d::'a UniverseDatum. 200000 < Amount d \<and> Transaction d = Buy"
  let ?is = "filter (\<lambda>i. ?Q (data ! i)) [0..<length data]"
  have s: "sorted_wrt (<) ?is"
    by (simp add: sorted_wrt_filter)
  have m: "set ?is = {i. i < length data \<and> ?Q (data ! i)}"
    by auto
  have "filter ?Q data = filter ?Q (map (\<lambda>i. data ! i) [0..<length data])"
    by (simp add: map_nth)
  also have "\<dots> = map (\<lambda>i. data ! i) ?is"
    by (simp add: filter_map comp_def)
  finally have "map Symbol (filter ?Q data) = map (\<lambda>i. Symbol (data ! i)) ?is"
    by simp
  then have "fst (UniverseSelection sink F data self) = map (\<lambda>i. Symbol (data ! i)) ?is"
    by (simp add: fst_UniverseSelection selection_criteria_filter)
  with s m show ?thesis by blast
qed

section \<open>The initialization\<close>

text \<open>
  C6. From any engine state, \<^verbatim>\<open>Initialize\<close> sets the universe resolution to Daily, the
  start date to 2022-02-14, the end date to 2022-02-18 and the cash to 100000, and registers
  one universe (the list of universes grows by exactly one entry: the congress universe,
  with daily resolution and the selection callback). Nothing else changes; the log is as
  it was.
\<close>

theorem Initialize_configuration:
  "Initialize self =
     self\<lparr>UniverseSettings_Resolution := Daily,
          StartDate := \<lparr>year = 2022, month = 2, day = 14\<rparr>,
          EndDate := \<lparr>year = 2022, month = 2, day = 18\<rparr>,
          Cash := 100000,
          Universes := Universes self @
            [\<lparr>universe_type = ''QuiverQuantCongressUniverse'',
              universe_name = ''QuiverQuantCongresssUniverse'',
              universe_resolution = Daily,
              universe_selector = Method_UniverseSelection\<rparr>]\<rparr>
   \<and> UniverseSettings_Resolution (Initialize self) = Daily
   \<and> StartDate (Initialize self) = \<lparr>year = 2022, month = 2, day = 14\<rparr>
   \<and> EndDate (Initialize self) = \<lparr>year = 2022, month = 2, day = 18\<rparr>
   \<and> Cash (Initialize self) = 100000
   \<and> length (Universes (Initialize self)) = Suc (length (Universes self))
   \<and> LogLines (Initialize self) = LogLines self"
  by (simp add: Initialize_def SetStartDate_def SetEndDate_def SetCash_def AddUniverse_def)

section \<open>Logging\<close>

lemma log_line_fun:
  "log_line F =
     (\<lambda>d. str_Symbol F (Symbol d) @ '','' @ Representative d @ '','' @
          str_Amount F (Amount d) @ '','' @ str_Transaction F (Transaction d))"
  by (rule ext) (simp add: log_line_def)

text \<open>
  C7. For an input of n data, \<^verbatim>\<open>UniverseSelection\<close> calls the sink exactly n times, once per
  datum and in the order of the input. The line of a datum is the text of its symbol, its
  representative, the text of its amount and the text of its direction, in this order and
  separated by commas; the state the method returns is the sink folded over these n lines.
  A sink that counts its calls ends n higher; the engine's log grows by exactly these n
  lines and nothing else of the engine state changes. On the spec's example the capturing
  sink receives the three lines of the three data. The selection is the same for every
  sink, every text conversion and every engine state.
\<close>

theorem UniverseSelection_logging:
  "snd (UniverseSelection sink F data self) =
     foldl (\<lambda>s m. sink m s) self
       (map (\<lambda>d. str_Symbol F (Symbol d) @ '','' @ Representative d @ '','' @
                  str_Amount F (Amount d) @ '','' @ str_Transaction F (Transaction d)) data)
   \<and> snd (UniverseSelection (\<lambda>m n. Suc n) F data k) = k + length data
   \<and> snd (UniverseSelection Log F data h) =
       h\<lparr>LogLines := LogLines h @
         map (\<lambda>d. str_Symbol F (Symbol d) @ '','' @ Representative d @ '','' @
                  str_Amount F (Amount d) @ '','' @ str_Transaction F (Transaction d)) data\<rparr>
   \<and> length (LogLines (snd (UniverseSelection Log F data h))) = length (LogLines h) + length data
   \<and> snd (UniverseSelection capture plain_format spec_example []) =
       [''SYM_A,Rep1,250000,Buy'', ''SYM_B,Rep2,150000,Buy'', ''SYM_C,Rep3,300000,Sell'']
   \<and> fst (UniverseSelection sink F data self) = fst (UniverseSelection sink' F' data self')"
proof (intro conjI)
  show "snd (UniverseSelection sink F data self) =
     foldl (\<lambda>s m. sink m s) self
       (map (\<lambda>d. str_Symbol F (Symbol d) @ '','' @ Representative d @ '','' @
                  str_Amount F (Amount d) @ '','' @ str_Transaction F (Transaction d)) data)"
    by (simp add: snd_UniverseSelection log_loop_foldl log_line_fun)
next
  show "snd (UniverseSelection (\<lambda>m n. Suc n) F data k) = k + length data"
    by (simp add: snd_UniverseSelection log_loop_foldl foldl_count)
next
  show "snd (UniverseSelection Log F data h) =
       h\<lparr>LogLines := LogLines h @
         map (\<lambda>d. str_Symbol F (Symbol d) @ '','' @ Representative d @ '','' @
                  str_Amount F (Amount d) @ '','' @ str_Transaction F (Transaction d)) data\<rparr>"
    by (simp add: snd_UniverseSelection log_loop_foldl foldl_Log log_line_fun)
next
  show "length (LogLines (snd (UniverseSelection Log F data h))) =
      length (LogLines h) + length data"
    by (simp add: snd_UniverseSelection log_loop_foldl foldl_Log)
next
  show "snd (UniverseSelection capture plain_format spec_example []) =
       [''SYM_A,Rep1,250000,Buy'', ''SYM_B,Rep2,150000,Buy'', ''SYM_C,Rep3,300000,Sell'']"
    by (simp add: UniverseSelection_def example_defs log_line_def plain_format_def capture_def)
next
  show "fst (UniverseSelection sink F data self) = fst (UniverseSelection sink' F' data self')"
    by (simp add: fst_UniverseSelection)
qed

text \<open>
  C8. \<^verbatim>\<open>OnSecuritiesChanged\<close> calls the sink exactly once, with the text of the change set:
  the engine's log grows by this one line and the rest of the engine state (resolution,
  dates, cash, universes) is as before; a counting sink ends one higher. The method returns
  no value, and the change set, a value that is only read, is not changed.
\<close>

theorem OnSecuritiesChanged_logs_once:
  "OnSecuritiesChanged Log ToString changes h = h\<lparr>LogLines := LogLines h @ [ToString changes]\<rparr>
   \<and> OnSecuritiesChanged (\<lambda>m n. Suc n) ToString changes k = Suc k
   \<and> OnSecuritiesChanged capture ToString changes lines = lines @ [ToString changes]
   \<and> UniverseSettings_Resolution (OnSecuritiesChanged Log ToString changes h) =
       UniverseSettings_Resolution h
   \<and> StartDate (OnSecuritiesChanged Log ToString changes h) = StartDate h
   \<and> EndDate (OnSecuritiesChanged Log ToString changes h) = EndDate h
   \<and> Cash (OnSecuritiesChanged Log ToString changes h) = Cash h
   \<and> Universes (OnSecuritiesChanged Log ToString changes h) = Universes h"
  by (simp add: OnSecuritiesChanged_def Log_def capture_def)

section \<open>Statelessness\<close>

text \<open>
  C9. In every run of callbacks from every engine state, each call of \<^verbatim>\<open>UniverseSelection\<close>
  returns what a call on the same input returns from any other state and with any other
  sink, so the result depends on the input alone. Two calls on equal inputs, with any calls
  before, between and after them, return equal selections; a call after any run returns
  what it returns without the run; and a call after \<^verbatim>\<open>OnSecuritiesChanged\<close> returns what it
  returns without it.
\<close>

theorem callbacks_stateless:
  "fst (run sink F ToString cs self) =
     map (\<lambda>c. case c of
            Call_UniverseSelection data \<Rightarrow> Some (fst (UniverseSelection sink' F' data self'))
          | Call_OnSecuritiesChanged changes \<Rightarrow> None) cs
   \<and> fst (run sink F ToString
          (pre @ Call_UniverseSelection data # mid @ Call_UniverseSelection data # post) self)
        ! length pre =
     fst (run sink F ToString
          (pre @ Call_UniverseSelection data # mid @ Call_UniverseSelection data # post) self)
        ! (Suc (length pre + length mid))
   \<and> fst (UniverseSelection sink F data (snd (run sink F ToString cs self))) =
     fst (UniverseSelection sink F data self)
   \<and> fst (UniverseSelection sink F data (OnSecuritiesChanged sink ToString changes self)) =
     fst (UniverseSelection sink F data self)"
proof (intro conjI)
  show "fst (run sink F ToString cs self) =
     map (\<lambda>c. case c of
            Call_UniverseSelection data \<Rightarrow> Some (fst (UniverseSelection sink' F' data self'))
          | Call_OnSecuritiesChanged changes \<Rightarrow> None) cs"
    by (simp add: fst_run fst_UniverseSelection split: invocation.split)
next
  let ?cs = "pre @ Call_UniverseSelection data # mid @ Call_UniverseSelection data # post"
  have a: "?cs ! length pre = Call_UniverseSelection data"
    by simp
  have "?cs ! (length pre + Suc (length mid)) =
      (Call_UniverseSelection data # mid @ Call_UniverseSelection data # post) ! Suc (length mid)"
    by (rule nth_append_length_plus)
  then have b: "?cs ! (Suc (length pre + length mid)) = Call_UniverseSelection data"
    by simp
  have l1: "length pre < length ?cs" and l2: "Suc (length pre + length mid) < length ?cs"
    by simp_all
  show "fst (run sink F ToString ?cs self) ! length pre =
        fst (run sink F ToString ?cs self) ! (Suc (length pre + length mid))"
    unfolding fst_run nth_map [OF l1] nth_map [OF l2] a b ..
next
  show "fst (UniverseSelection sink F data (snd (run sink F ToString cs self))) =
     fst (UniverseSelection sink F data self)"
    by (simp add: fst_UniverseSelection)
next
  show "fst (UniverseSelection sink F data (OnSecuritiesChanged sink ToString changes self)) =
     fst (UniverseSelection sink F data self)"
    by (simp add: fst_UniverseSelection)
qed

text \<open>
  C10. The selection does not depend on the representatives: two inputs that agree, datum
  by datum, on symbol, amount and direction (and so have the same length) give the same
  selection, also under different sinks, text conversions and engine states.
\<close>

theorem UniverseSelection_ignores_Representative:
  "map (\<lambda>d. (Symbol d, Amount d, Transaction d)) xs =
   map (\<lambda>d. (Symbol d, Amount d, Transaction d)) ys \<Longrightarrow>
   fst (UniverseSelection sink F xs self) = fst (UniverseSelection sink' F' ys self')"
  unfolding fst_UniverseSelection by (rule selection_criteria_projection)

theorem UniverseSelection_ignores_Representative_witness:
  "map (\<lambda>d. (Symbol d, Amount d, Transaction d)) [datum_A, datum_B] =
   map (\<lambda>d. (Symbol d, Amount d, Transaction d))
     [datum_A\<lparr>Representative := ''Someone''\<rparr>, datum_B\<lparr>Representative := ''Else''\<rparr>]
   \<and> fst (UniverseSelection capture plain_format [datum_A, datum_B] []) =
     fst (UniverseSelection capture plain_format
       [datum_A\<lparr>Representative := ''Someone''\<rparr>, datum_B\<lparr>Representative := ''Else''\<rparr>]
       [''earlier line''])"
proof -
  have h: "map (\<lambda>d. (Symbol d, Amount d, Transaction d)) [datum_A, datum_B] =
     map (\<lambda>d. (Symbol d, Amount d, Transaction d))
       [datum_A\<lparr>Representative := ''Someone''\<rparr>, datum_B\<lparr>Representative := ''Else''\<rparr>]"
    by simp
  from h UniverseSelection_ignores_Representative [OF h, of capture plain_format "[]"
      capture plain_format "[''earlier line'']"]
  show ?thesis by simp
qed

end
